theory Spec2Isabelle
  imports Main "HOL-Library.Sublist" "HOL-Library.Word"
begin

section \<open>Python values the application handles\<close>

text \<open>
  The application is one Flask module, \<^verbatim>\<open>app.py\<close>. Its functions are embedded one by
  one below, each under the name it has in the source. A Python \<^verbatim>\<open>str\<close> is a
  \<^typ>\<open>string\<close>; a \<^typ>\<open>char\<close> stands for the code point of the same number. The tables
  of white space, line boundaries and letter case are the ones of Python for the code points
  below 128, so the embedding covers ASCII form data and ASCII file contents.

  Whatever can raise in the source returns a sum here: \<open>Inl\<close> carries the exception,
  \<open>Inr\<close> the value. An exception is its class and its message; every class below derives
  from \<^verbatim>\<open>Exception\<close>. The class \<open>RequestException\<close> stands for
  \<^verbatim>\<open>requests.exceptions.RequestException\<close> and all its subclasses (connection
  errors, timeouts, \<^verbatim>\<open>HTTPError\<close>, the decoding error of \<^verbatim>\<open>Response.json\<close>).
\<close>

datatype exn_class =
    RequestException | AttributeError | IndexError | KeyError | TypeError
  | OSError | UnicodeDecodeError | OtherException

datatype py_exn = Exn exn_class string

fun exn_message :: "py_exn \<Rightarrow> string" where
  "exn_message (Exn c m) = m"

fun exn_class_of :: "py_exn \<Rightarrow> exn_class" where
  "exn_class_of (Exn c m) = c"

text \<open>
  What \<^verbatim>\<open>json.loads\<close> produces: \<^verbatim>\<open>None\<close>, a bool, a number, a str, a list or
  a dict with string keys. A dict is the association list of its items, looked up with
  \<^const>\<open>map_of\<close>. No branch of the program reads a number, so numbers are integers.
\<close>

datatype json =
    JNull | JBool bool | JNum int | JStr string
  | JArr "json list" | JObj "(string \<times> json) list"

abbreviation LF :: char where
  "LF \<equiv> CHR 0x0A"

abbreviation CR :: char where
  "CR \<equiv> CHR 0x0D"

abbreviation SQ :: char where
  "SQ \<equiv> CHR 0x27"

definition then_do :: "py_exn + 'a \<Rightarrow> ('a \<Rightarrow> py_exn + 'b) \<Rightarrow> py_exn + 'b" where
  "then_do r f = (case r of Inl e \<Rightarrow> Inl e | Inr v \<Rightarrow> f v)"

text \<open>
  \<^verbatim>\<open>v.get(key, default)\<close>: only a dict has the method; on anything else the attribute
  lookup raises \<^verbatim>\<open>AttributeError\<close>.
\<close>

definition py_get :: "json \<Rightarrow> string \<Rightarrow> json \<Rightarrow> py_exn + json" where
  "py_get v key dflt =
     (case v of
        JObj items \<Rightarrow> Inr (case map_of items key of Some x \<Rightarrow> x | None \<Rightarrow> dflt)
      | _ \<Rightarrow> Inl (Exn AttributeError ''object has no attribute get''))"

text \<open>
  \<^verbatim>\<open>v[0]\<close>: the first element of a list or the first character of a str,
  \<^verbatim>\<open>IndexError\<close> when it is empty; \<^verbatim>\<open>KeyError\<close> on a dict (the keys of a
  decoded JSON object are strings, never the integer 0); \<^verbatim>\<open>TypeError\<close> on
  \<^verbatim>\<open>None\<close>, a bool or a number.
\<close>

definition py_index0 :: "json \<Rightarrow> py_exn + json" where
  "py_index0 v =
     (case v of
        JArr xs \<Rightarrow> (case xs of [] \<Rightarrow> Inl (Exn IndexError ''list index out of range'')
                               | x # _ \<Rightarrow> Inr x)
      | JStr s \<Rightarrow> (case s of [] \<Rightarrow> Inl (Exn IndexError ''string index out of range'')
                              | c # _ \<Rightarrow> Inr (JStr [c]))
      | JObj items \<Rightarrow> Inl (Exn KeyError ''0'')
      | _ \<Rightarrow> Inl (Exn TypeError ''object is not subscriptable''))"

section \<open>The External Generation Client\<close>

text \<open>
  The module reads \<^verbatim>\<open>GEMINI_API_KEY\<close> and \<^verbatim>\<open>GEMINI_ENDPOINT\<close> from the
  environment once, at import. The remote service is a function from the request that is
  posted to what \<^verbatim>\<open>requests.post\<close> does with it: it raises, or it returns a response
  with a status code and a body that decodes as JSON or does not.
\<close>

record config =
  GEMINI_API_KEY :: string
  GEMINI_ENDPOINT :: string

record http_request =
  url :: string
  headers :: "(string \<times> string) list"
  json_payload :: json
  timeout :: nat

datatype http_outcome =
    PostRaises py_exn
  | PostResponds nat "json option"

type_synonym service = "http_request \<Rightarrow> http_outcome"

text \<open>\<^verbatim>\<open>resp.raise_for_status()\<close>: a status from 400 to 599 raises \<^verbatim>\<open>HTTPError\<close>.\<close>

definition raise_for_status :: "nat \<Rightarrow> py_exn + unit" where
  "raise_for_status status =
     (if 400 \<le> status \<and> status < 600
      then Inl (Exn RequestException ''HTTP error status'')
      else Inr ())"

text \<open>\<^verbatim>\<open>resp.json()\<close>: the decoded body, or the decoding error of \<^verbatim>\<open>requests\<close>.\<close>

definition resp_json :: "json option \<Rightarrow> py_exn + json" where
  "resp_json b =
     (case b of None \<Rightarrow> Inl (Exn RequestException ''response body is not valid JSON'')
              | Some j \<Rightarrow> Inr j)"

text \<open>
  The chain of line 55:
  \<^verbatim>\<open>j.get("candidates", [{}])[0].get("content", {}).get("parts", [{}])[0].get("text", "[No response text found]")\<close>
\<close>

definition no_response_text :: string where
  "no_response_text = ''[No response text found]''"

definition extract_text :: "json \<Rightarrow> py_exn + json" where
  "extract_text j =
     then_do (py_get j ''candidates'' (JArr [JObj []])) (\<lambda>cands.
     then_do (py_index0 cands) (\<lambda>cand.
     then_do (py_get cand ''content'' (JObj [])) (\<lambda>content.
     then_do (py_get content ''parts'' (JArr [JObj []])) (\<lambda>parts.
     then_do (py_index0 parts) (\<lambda>part.
     py_get part ''text'' (JStr no_response_text))))))"

definition gemini_request :: "config \<Rightarrow> string \<Rightarrow> http_request" where
  "gemini_request cfg prompt =
     \<lparr> url = GEMINI_ENDPOINT cfg,
       headers = [(''Content-Type'', ''application/json''),
                  (''x-goog-api-key'', GEMINI_API_KEY cfg)],
       json_payload =
         JObj [(''contents'', JArr [JObj [(''parts'', JArr [JObj [(''text'', JStr prompt)]])]])],
       timeout = 60 \<rparr>"

text \<open>The body of the \<^verbatim>\<open>try\<close> block, lines 50 to 55.\<close>

definition gemini_try :: "service \<Rightarrow> http_request \<Rightarrow> py_exn + json" where
  "gemini_try post req =
     (case post req of
        PostRaises e \<Rightarrow> Inl e
      | PostResponds status body \<Rightarrow>
          then_do (raise_for_status status) (\<lambda>_.
          then_do (resp_json body) (\<lambda>j.
          extract_text j)))"

text \<open>
  \<^verbatim>\<open>call_gemini_api(prompt, max_tokens)\<close>. The result is the value returned or the
  exception raised, together with the requests that went out to the network, in order.
  The first handler takes \<^verbatim>\<open>RequestException\<close>, the second every other
  \<^verbatim>\<open>Exception\<close>. \<^verbatim>\<open>max_tokens\<close> is accepted and never used.
\<close>

definition missing_key_message :: string where
  "missing_key_message = ''[ERROR] Gemini API key not found. Please check your .env file.''"

definition call_gemini_api ::
  "config \<Rightarrow> service \<Rightarrow> string \<Rightarrow> int \<Rightarrow> (py_exn + json) \<times> http_request list" where
  "call_gemini_api cfg post prompt max_tokens =
     (if GEMINI_API_KEY cfg = [] then (Inr (JStr missing_key_message), [])
      else
        let req = gemini_request cfg prompt in
        (case gemini_try post req of
           Inr v \<Rightarrow> Inr v
         | Inl e \<Rightarrow>
             if exn_class_of e = RequestException
             then Inr (JStr (''[Error calling AI service] '' @ exn_message e))
             else Inr (JStr (''[Unexpected error] '' @ exn_message e)),
         [req]))"

section \<open>Strings\<close>

text \<open>
  \<^verbatim>\<open>str.isspace\<close> below 128: tab, line feed, vertical tab, form feed, carriage
  return, the four separators 0x1C to 0x1F and the space.
\<close>

definition is_space :: "char \<Rightarrow> bool" where
  "is_space c =
     (c \<in> set [CHR 0x09, LF, CHR 0x0B, CHR 0x0C, CR,
                CHR 0x1C, CHR 0x1D, CHR 0x1E, CHR 0x1F, CHR '' ''])"

text \<open>\<^verbatim>\<open>s.strip()\<close>: white space removed at both ends.\<close>

definition strip :: "string \<Rightarrow> string" where
  "strip s = rev (dropWhile is_space (rev (dropWhile is_space s)))"

definition is_upper :: "char \<Rightarrow> bool" where
  "is_upper c = (65 \<le> (of_char c :: nat) \<and> (of_char c :: nat) \<le> 90)"

definition is_lower :: "char \<Rightarrow> bool" where
  "is_lower c = (97 \<le> (of_char c :: nat) \<and> (of_char c :: nat) \<le> 122)"

definition is_digit :: "char \<Rightarrow> bool" where
  "is_digit c = (48 \<le> (of_char c :: nat) \<and> (of_char c :: nat) \<le> 57)"

definition lower_char :: "char \<Rightarrow> char" where
  "lower_char c = (if is_upper c then char_of ((of_char c :: nat) + 32) else c)"

definition upper_char :: "char \<Rightarrow> char" where
  "upper_char c = (if is_lower c then char_of ((of_char c :: nat) - 32) else c)"

text \<open>\<^verbatim>\<open>s.lower()\<close>.\<close>

definition lower :: "string \<Rightarrow> string" where
  "lower s = map lower_char s"

text \<open>
  \<^verbatim>\<open>s.title()\<close>: a letter that follows a letter is lowered, any other letter is
  raised. The flag is CPython's \<^verbatim>\<open>previous_is_cased\<close>.
\<close>

fun title_from :: "bool \<Rightarrow> string \<Rightarrow> string" where
  "title_from previous_is_cased [] = []"
| "title_from previous_is_cased (c # cs) =
     (if previous_is_cased then lower_char c else upper_char c)
       # title_from (is_upper c \<or> is_lower c) cs"

definition title :: "string \<Rightarrow> string" where
  "title s = title_from False s"

text \<open>
  \<^verbatim>\<open>s.split(sep)\<close> for a separator of one character: the pieces between the
  separators, empty pieces kept, never an empty list.
\<close>

fun split_on :: "char \<Rightarrow> string \<Rightarrow> string list" where
  "split_on sep [] = [[]]"
| "split_on sep (c # cs) =
     (if c = sep then [] # split_on sep cs
      else (case split_on sep cs of
              [] \<Rightarrow> [[c]]
            | piece # pieces \<Rightarrow> (c # piece) # pieces))"

text \<open>\<^verbatim>\<open>sep.join(pieces)\<close>.\<close>

fun join :: "string \<Rightarrow> string list \<Rightarrow> string" where
  "join sep [] = []"
| "join sep [p] = p"
| "join sep (p # q # ps) = p @ sep @ join sep (q # ps)"

text \<open>\<^verbatim>\<open>s.replace(old, new)\<close> where \<^verbatim>\<open>old\<close> and \<^verbatim>\<open>new\<close> are one character each.\<close>

definition replace :: "string \<Rightarrow> char \<Rightarrow> char \<Rightarrow> string" where
  "replace s old new = map (\<lambda>c. if c = old then new else c) s"

text \<open>
  \<^verbatim>\<open>s.splitlines()\<close>: the line boundaries below 128 are line feed, carriage return
  (with a following line feed as one boundary), vertical tab, form feed and the separators
  0x1C, 0x1D, 0x1E. A boundary at the very end opens no further line.
\<close>

definition is_linebreak :: "char \<Rightarrow> bool" where
  "is_linebreak c =
     (c \<in> set [LF, CR, CHR 0x0B, CHR 0x0C, CHR 0x1C, CHR 0x1D, CHR 0x1E])"

fun splitlines :: "string \<Rightarrow> string list" where
  "splitlines [] = []"
| "splitlines (c # cs) =
     (if is_linebreak c then
        (case cs of
           [] \<Rightarrow> [[]]
         | d # ds \<Rightarrow> if c = CR \<and> d = LF then [] # splitlines ds else [] # splitlines cs)
      else (case splitlines cs of
              [] \<Rightarrow> [[c]]
            | line # lines \<Rightarrow> (c # line) # lines))"

text \<open>\<^verbatim>\<open>xs[:n]\<close>: a negative bound counts from the end.\<close>

definition slice_to :: "'a list \<Rightarrow> int \<Rightarrow> 'a list" where
  "slice_to xs n = (if 0 \<le> n then take (nat n) xs else take (length xs - nat (- n)) xs)"

section \<open>\<^verbatim>\<open>textwrap.dedent\<close>\<close>

text \<open>
  The library function, as CPython implements it with regular expressions: every line made
  of spaces and tabs only becomes empty; the margin is the longest string of spaces and tabs
  that starts every remaining non-empty line; the margin is removed from the start of each
  line that starts with it. Lines are the pieces between line feeds.
\<close>

definition is_blank :: "string \<Rightarrow> bool" where
  "is_blank l = (\<forall>c \<in> set l. c = CHR '' '' \<or> c = CHR 0x09)"

definition indent_of :: "string \<Rightarrow> string" where
  "indent_of l = takeWhile (\<lambda>c. c = CHR '' '' \<or> c = CHR 0x09) l"

text \<open>One round of the loop over the indents; \<open>None\<close> is the initial \<^verbatim>\<open>margin = None\<close>.\<close>

fun margin_step :: "string option \<Rightarrow> string \<Rightarrow> string option" where
  "margin_step None indent = Some indent"
| "margin_step (Some margin) indent =
     (if prefix margin indent then Some margin
      else if prefix indent margin then Some indent
      else Some (longest_common_prefix margin indent))"

definition margin_of :: "string list \<Rightarrow> string" where
  "margin_of lines =
     (case foldl margin_step None (map indent_of (filter (\<lambda>l. l \<noteq> []) lines)) of
        None \<Rightarrow> []
      | Some m \<Rightarrow> m)"

definition remove_margin :: "string \<Rightarrow> string list \<Rightarrow> string list" where
  "remove_margin margin lines =
     map (\<lambda>l. if prefix margin l then drop (length margin) l else l) lines"

definition dedent_lines :: "string list \<Rightarrow> string list" where
  "dedent_lines lines = remove_margin (margin_of lines) lines"

definition dedent :: "string \<Rightarrow> string" where
  "dedent text =
     join [LF] (dedent_lines (map (\<lambda>l. if is_blank l then [] else l) (split_on LF text)))"

section \<open>The Context Loader\<close>

text \<open>
  The state of \<^verbatim>\<open>stories.txt\<close> when the function runs: absent
  (\<^verbatim>\<open>os.path.exists\<close> is false); present and read without error, with the text that
  \<^verbatim>\<open>f.read()\<close> returns; or present while \<^verbatim>\<open>open\<close> or \<^verbatim>\<open>read\<close>
  raises (no permission, a directory, bytes that are not UTF-8).
\<close>

datatype fs_file = Missing | Readable string | Unreadable py_exn

definition load_local_context :: "fs_file \<Rightarrow> int \<Rightarrow> py_exn + string" where
  "load_local_context STORIES_FILE n_lines =
     (case STORIES_FILE of
        Missing \<Rightarrow> Inr []
      | Unreadable e \<Rightarrow> Inl e
      | Readable content \<Rightarrow>
          let lines = strip content
          in Inr (join [LF] (slice_to (splitlines lines) n_lines)))"

section \<open>The Prompt Builder\<close>

definition dict_get :: "(string \<rightharpoonup> string) \<Rightarrow> string \<Rightarrow> string \<Rightarrow> string" where
  "dict_get d key dflt = (case d key of Some v \<Rightarrow> v | None \<Rightarrow> dflt)"

definition default_concerns :: string where
  "default_concerns = ''general protection against scams and fraud''"

text \<open>
  The f-string of lines 65 to 80, before \<^verbatim>\<open>textwrap.dedent\<close> sees it: the
  three fixed parts first, then the whole with the four interpolated values.
\<close>

definition intro_line :: string where
  "intro_line =
     ''    You are an AI assistant that writes short, clear, actionable cybersecurity policies for informal microbusinesses.''"

definition context_heading :: string where
  "context_heading =
     ''    Local context examples (do not reveal personally identifying info): ''"

definition instructions :: string where
  "instructions =
     ''    Produce:'' @ [LF] @
     ''    1) A short policy title (one line).'' @ [LF] @
     ''    2) A 6-12 point actionable policy list (each item one sentence; no jargon).'' @ [LF] @
     ''    3) A short '' @ [SQ] @ ''Why this matters'' @ [SQ] @ '' paragraph (1-2 sentences).'' @ [LF] @
     ''    4) Simple implementation checklist (3 items).'' @ [LF] @
     ''    Keep language simple and concise for low-literacy users. Use imperative tone: ''
       @ [SQ] @ ''Do this'' @ [SQ] @ '', '' @ [SQ] @ ''Avoid that'' @ [SQ] @ ''.'' @ [LF] @
     ''    Format output as plain text with clear sections.''"

definition prompt_fstring :: "string \<Rightarrow> string \<Rightarrow> string \<Rightarrow> string \<Rightarrow> string" where
  "prompt_fstring business tools local_context concerns =
     [LF] @
     intro_line @ [LF] @
     ''    Target user: '' @ business @ ''. Digital tools used: '' @ tools @ ''.'' @ [LF] @
     context_heading @ [LF] @
     ''    '' @ local_context @ [LF] @
     [LF] @
     ''    User-stated concerns: '' @ concerns @ [LF] @
     [LF] @
     instructions @ [LF] @
     ''    ''"

definition construct_prompt :: "(string \<rightharpoonup> string) \<Rightarrow> string \<Rightarrow> string" where
  "construct_prompt user_input local_context =
     (let business = dict_get user_input ''business_type'' ''Informal vendor'';
          tools = dict_get user_input ''tools'' ''WhatsApp / Mobile money'';
          concerns = (let c = dict_get user_input ''concerns'' [] in
                      if c = [] then default_concerns else c)
      in dedent (prompt_fstring business tools local_context concerns))"

section \<open>The clock\<close>

text \<open>
  What \<^verbatim>\<open>datetime.utcnow()\<close> returns, and \<^verbatim>\<open>strftime("%Y%m%d%H%M%S")\<close> on it.
  The year is printed in decimal with no padding (as the C library does below the year
  1000); the other five fields are padded to two digits.
\<close>

record datetime =
  dt_year :: nat
  dt_month :: nat
  dt_day :: nat
  dt_hour :: nat
  dt_minute :: nat
  dt_second :: nat

definition valid_datetime :: "datetime \<Rightarrow> bool" where
  "valid_datetime d =
     (1 \<le> dt_year d \<and> dt_year d \<le> 9999 \<and> 1 \<le> dt_month d \<and> dt_month d \<le> 12 \<and>
      1 \<le> dt_day d \<and> dt_day d \<le> 31 \<and> dt_hour d < 24 \<and> dt_minute d < 60 \<and> dt_second d < 60)"

definition digit_char :: "nat \<Rightarrow> char" where
  "digit_char n = char_of (48 + n mod 10)"

function dec :: "nat \<Rightarrow> string" where
  "dec n = (if n < 10 then [digit_char n] else dec (n div 10) @ [digit_char (n mod 10)])"
  by pat_completeness auto
termination
  by (relation "measure (\<lambda>n. n)") auto

definition pad2 :: "nat \<Rightarrow> string" where
  "pad2 n = (if n < 10 then CHR ''0'' # dec n else dec n)"

definition strftime :: "datetime \<Rightarrow> string" where
  "strftime d =
     dec (dt_year d) @ pad2 (dt_month d) @ pad2 (dt_day d) @
     pad2 (dt_hour d) @ pad2 (dt_minute d) @ pad2 (dt_second d)"

section \<open>The Request Handler\<close>

text \<open>
  A form is the map from field names to submitted values; \<^verbatim>\<open>request.form.get(k, d)\<close>
  is \<^const>\<open>dict_get\<close>. What a handler does besides returning is listed in order: a flashed
  message with its category, an invocation of the External Generation Client with the prompt
  it is given, a request posted to the network.
\<close>

record env =
  env_config :: config
  env_service :: service
  env_stories :: fs_file
  env_utcnow :: datetime

datatype effect =
    Flash string string
  | GenerationCall string
  | HttpPost http_request

record result_page =
  rp_policy :: json
  rp_filename :: string
  rp_business_type :: string
  rp_tools :: string
  rp_concerns :: string

datatype response =
    Redirect string
  | RenderTemplate string result_page

text \<open>\<^verbatim>\<open>url_for\<close> on the routes the module declares.\<close>

definition url_for :: "string \<Rightarrow> string" where
  "url_for endpoint =
     (if endpoint = ''index'' then ''/''
      else if endpoint = ''generate'' then ''/generate''
      else if endpoint = ''download'' then ''/download''
      else ''/test_api'')"

definition allowed_types :: "string list" where
  "allowed_types = [''whatsapp vendor'', ''street trader'']"

definition valid_tools :: "string list" where
  "valid_tools =
     [''whatsapp'', ''pos'', ''paystack'', ''bank transfer'', ''bank app'', ''mobile money'']"

text \<open>The flashed text, without the warning sign that precedes it in the source.\<close>

definition unsupported_message :: string where
  "unsupported_message =
     ''This tool only supports WhatsApp Vendors and Street Traders. No policy generated.''"

definition extra_note :: string where
  "extra_note =
     [LF, LF] @
     ''Note: Some tools provided are not recognized as digital payment or communication tools. '' @
     ''Based on your business type, consider using verified digital tools such as WhatsApp, POS systems, Paystack, or Bank Transfers for safer operations.''"

text \<open>Lines 101 and 102: the two list comprehensions.\<close>

definition tool_list_of :: "string \<Rightarrow> string list" where
  "tool_list_of tools = map strip (filter (\<lambda>t. strip t \<noteq> []) (split_on CHR '','' tools))"

definition unrecognized_of :: "string list \<Rightarrow> string list" where
  "unrecognized_of tool_list = filter (\<lambda>t. t \<notin> set valid_tools) tool_list"

text \<open>Lines 107 to 121: the prompt handed to the client.\<close>

definition final_prompt :: "string \<Rightarrow> string \<Rightarrow> string \<Rightarrow> string \<Rightarrow> string" where
  "final_prompt business_type tools concerns local_context =
     (let unrecognized = unrecognized_of (tool_list_of tools);
          user_input = [''business_type'' \<mapsto> title business_type,
                        ''tools'' \<mapsto> tools,
                        ''concerns'' \<mapsto> concerns];
          prompt = construct_prompt user_input local_context
      in if unrecognized \<noteq> [] then prompt @ extra_note else prompt)"

text \<open>Lines 89 to 91: the three fields as the handler holds them.\<close>

definition form_business_type :: "(string \<rightharpoonup> string) \<Rightarrow> string" where
  "form_business_type form = lower (strip (dict_get form ''business_type'' []))"

definition form_tools :: "(string \<rightharpoonup> string) \<Rightarrow> string" where
  "form_tools form = lower (strip (dict_get form ''tools'' []))"

definition form_concerns :: "(string \<rightharpoonup> string) \<Rightarrow> string" where
  "form_concerns form = strip (dict_get form ''concerns'' [])"

definition generate :: "env \<Rightarrow> (string \<rightharpoonup> string) \<Rightarrow> (py_exn + response) \<times> effect list" where
  "generate e form =
     (let business_type = form_business_type form;
          tools = form_tools form;
          concerns = form_concerns form
      in if business_type \<notin> set allowed_types
         then (Inr (Redirect (url_for ''index'')), [Flash unsupported_message ''danger''])
         else
           (case load_local_context (env_stories e) 20 of
              Inl ex \<Rightarrow> (Inl ex, [])
            | Inr local_context \<Rightarrow>
                let prompt = final_prompt business_type tools concerns local_context;
                    (r, posted) = call_gemini_api (env_config e) (env_service e) prompt 800;
                    policy_text =
                      (case r of
                         Inr v \<Rightarrow> v
                       | Inl ex \<Rightarrow> JStr (''[Error calling AI service] '' @ exn_message ex));
                    timestamp = strftime (env_utcnow e);
                    filename =
                      ''policy_'' @ replace business_type CHR '' '' CHR ''_'' @ ''_'' @
                      timestamp @ ''.txt''
                in (Inr (RenderTemplate ''result.html''
                           \<lparr> rp_policy = policy_text, rp_filename = filename,
                             rp_business_type = business_type, rp_tools = tools,
                             rp_concerns = concerns \<rparr>),
                    GenerationCall prompt # map HttpPost posted)))"

text \<open>The prompts a handler handed to the client, read off what it did.\<close>

fun prompts_of :: "effect list \<Rightarrow> string list" where
  "prompts_of [] = []"
| "prompts_of (GenerationCall p # es) = p # prompts_of es"
| "prompts_of (_ # es) = prompts_of es"

section \<open>The Download Handler\<close>

text \<open>
  \<^verbatim>\<open>str.encode("utf-8")\<close>: one byte below 128, two bytes from 128 to 255.
\<close>

definition utf8_char :: "char \<Rightarrow> 8 word list" where
  "utf8_char c =
     (let n = (of_char c :: nat)
      in if n < 128 then [of_nat n] else [of_nat (192 + n div 64), of_nat (128 + n mod 64)])"

definition encode_utf8 :: "string \<Rightarrow> 8 word list" where
  "encode_utf8 s = concat (map utf8_char s)"

text \<open>
  \<^verbatim>\<open>io.BytesIO\<close>: a buffer and a position. Writing overwrites from the position on
  (after padding with zero bytes when the position lies beyond the end) and moves the
  position behind what was written. \<^verbatim>\<open>send_file\<close> streams the object from its
  current position to its end.
\<close>

record bytesio =
  bio_buffer :: "8 word list"
  bio_pos :: nat

definition BytesIO :: bytesio where
  "BytesIO = \<lparr> bio_buffer = [], bio_pos = 0 \<rparr>"

definition bio_write :: "bytesio \<Rightarrow> 8 word list \<Rightarrow> bytesio" where
  "bio_write m bytes =
     \<lparr> bio_buffer =
         take (bio_pos m) (bio_buffer m) @
         replicate (bio_pos m - length (bio_buffer m)) 0 @
         bytes @
         drop (bio_pos m + length bytes) (bio_buffer m),
       bio_pos = bio_pos m + length bytes \<rparr>"

definition bio_seek :: "bytesio \<Rightarrow> nat \<Rightarrow> bytesio" where
  "bio_seek m offset = m \<lparr> bio_pos := offset \<rparr>"

record file_response =
  fr_body :: "8 word list"
  fr_as_attachment :: bool
  fr_download_name :: string
  fr_mimetype :: string

definition send_file :: "bytesio \<Rightarrow> bool \<Rightarrow> string \<Rightarrow> string \<Rightarrow> file_response" where
  "send_file m as_attachment download_name mimetype =
     \<lparr> fr_body = drop (bio_pos m) (bio_buffer m),
       fr_as_attachment = as_attachment,
       fr_download_name = download_name,
       fr_mimetype = mimetype \<rparr>"

definition download :: "datetime \<Rightarrow> (string \<rightharpoonup> string) \<Rightarrow> file_response" where
  "download utcnow form =
     (let policy_text = dict_get form ''policy_text'' [];
          filename = dict_get form ''filename'' (''policy_'' @ strftime utcnow @ ''.txt'');
          mem = BytesIO;
          mem = bio_write mem (encode_utf8 policy_text);
          mem = bio_seek mem 0
      in send_file mem True filename ''text/plain'')"

section \<open>Sample environments\<close>

text \<open>Concrete configurations, services, clock readings and files, used to instantiate the results below.\<close>

definition example_config :: config where
  "example_config =
     \<lparr> GEMINI_API_KEY = ''k'', GEMINI_ENDPOINT = ''https://example.invalid/generate'' \<rparr>"

definition keyless_config :: config where
  "keyless_config =
     \<lparr> GEMINI_API_KEY = [], GEMINI_ENDPOINT = ''https://example.invalid/generate'' \<rparr>"

definition text_body :: "json \<Rightarrow> json" where
  "text_body t =
     JObj [(''candidates'',
            JArr [JObj [(''content'', JObj [(''parts'', JArr [JObj [(''text'', t)]])])]])]"

definition answering :: "json \<Rightarrow> service" where
  "answering body = (\<lambda>req. PostResponds 200 (Some body))"

definition example_now :: datetime where
  "example_now =
     \<lparr> dt_year = 2024, dt_month = 3, dt_day = 9, dt_hour = 7, dt_minute = 5, dt_second = 0 \<rparr>"

definition example_env :: env where
  "example_env =
     \<lparr> env_config = keyless_config,
       env_service = answering (text_body (JStr ''Lock your phone.'')),
       env_stories = Missing,
       env_utcnow = example_now \<rparr>"

definition example_form :: "string \<rightharpoonup> string" where
  "example_form =
     [''business_type'' \<mapsto> ''WhatsApp Vendor'',
      ''tools'' \<mapsto> ''WhatsApp, unknown_tool'',
      ''concerns'' \<mapsto> ''fake alerts'']"



section \<open>Facts about lines and \<^verbatim>\<open>textwrap.dedent\<close>\<close>














section \<open>Facts about the clock and about letter case\<close>

declare dec.simps [simp del]

lemma is_digit_digit_char: "is_digit (digit_char n)"
proof -
  have "n mod 10 < 10" by simp
  then have "(48 + n mod 10) mod 256 = 48 + n mod 10" by simp
  then show ?thesis by (simp add: is_digit_def digit_char_def)
qed

lemma dec_digits: "c \<in> set (dec n) \<Longrightarrow> is_digit c"
proof (induction n rule: dec.induct)
  case (1 n)
  then show ?case
    by (subst (asm) (2) dec.simps) (auto simp: is_digit_digit_char split: if_splits)
qed

lemma length_dec_1: "n < 10 \<Longrightarrow> length (dec n) = 1"
  by (subst dec.simps) simp

lemma length_dec_2: "10 \<le> n \<Longrightarrow> n < 100 \<Longrightarrow> length (dec n) = 2"
  by (subst dec.simps) (simp add: length_dec_1)

lemma length_dec_3: "100 \<le> n \<Longrightarrow> n < 1000 \<Longrightarrow> length (dec n) = 3"
  by (subst dec.simps) (simp add: length_dec_2)

lemma length_dec_4: "1000 \<le> n \<Longrightarrow> n < 10000 \<Longrightarrow> length (dec n) = 4"
  by (subst dec.simps) (simp add: length_dec_3)

lemma length_pad2: "n < 100 \<Longrightarrow> length (pad2 n) = 2"
  by (cases "n < 10") (simp_all add: pad2_def length_dec_1 length_dec_2)

lemma pad2_digits: "c \<in> set (pad2 n) \<Longrightarrow> is_digit c"
  by (auto simp: pad2_def is_digit_def dest: dec_digits split: if_splits)

lemma strftime_14_digits:
  assumes "valid_datetime d" and "1000 \<le> dt_year d"
  shows "length (strftime d) = 14 \<and> (\<forall>c \<in> set (strftime d). is_digit c)"
proof -
  from assms have "length (dec (dt_year d)) = 4"
    by (simp add: valid_datetime_def length_dec_4)
  moreover from assms have "length (pad2 (dt_month d)) = 2" "length (pad2 (dt_day d)) = 2"
    "length (pad2 (dt_hour d)) = 2" "length (pad2 (dt_minute d)) = 2"
    "length (pad2 (dt_second d)) = 2"
    by (simp_all add: valid_datetime_def length_pad2)
  ultimately have "length (strftime d) = 14" by (simp add: strftime_def)
  moreover have "\<forall>c \<in> set (strftime d). is_digit c"
    by (auto simp: strftime_def dest: dec_digits pad2_digits)
  ultimately show ?thesis by blast
qed










section \<open>Facts about the handler and the prompt\<close>

lemma prompts_of_posts: "prompts_of (map HttpPost posted) = []"
  by (induction posted) auto

lemma generate_accepted:
  assumes "form_business_type form \<in> set allowed_types"
    and "load_local_context (env_stories e) 20 = Inr local_context"
  shows "prompts_of (snd (generate e form))
           = [final_prompt (form_business_type form) (form_tools form) (form_concerns form)
                local_context]"
    and "\<exists>policy. fst (generate e form)
           = Inr (RenderTemplate ''result.html''
                    \<lparr> rp_policy = policy,
                      rp_filename = ''policy_'' @ replace (form_business_type form) CHR '' '' CHR ''_''
                                    @ ''_'' @ strftime (env_utcnow e) @ ''.txt'',
                      rp_business_type = form_business_type form,
                      rp_tools = form_tools form,
                      rp_concerns = form_concerns form \<rparr>)"
  using assms
  by (simp_all add: generate_def Let_def prompts_of_posts split: prod.splits)





















lemma example_env_context: "load_local_context (env_stories example_env) 20 = Inr []"
  by (simp add: example_env_def load_local_context_def)



lemma download_unfold:
  "download now form =
     \<lparr> fr_body = encode_utf8 (dict_get form ''policy_text'' []),
       fr_as_attachment = True,
       fr_download_name = dict_get form ''filename'' (''policy_'' @ strftime now @ ''.txt''),
       fr_mimetype = ''text/plain'' \<rparr>"
  by (simp add: download_def send_file_def bio_seek_def bio_write_def BytesIO_def Let_def)

lemma generate_propagates_read_error:
  assumes "form_business_type form \<in> set allowed_types"
    and "env_stories e = Unreadable ex"
  shows "generate e form = (Inl ex, [])"
  using assms by (simp add: generate_def load_local_context_def Let_def)

section \<open>The client never raises\<close>

lemmas client_defs =
  call_gemini_api_def gemini_try_def raise_for_status_def resp_json_def extract_text_def
  then_do_def py_get_def py_index0_def

text \<open>
  Whatever the service does, \<^const>\<open>call_gemini_api\<close> returns a value: both handlers end
  in a \<^verbatim>\<open>return\<close>. Without a key it returns the fixed error text and posts nothing.
\<close>

lemma call_gemini_api_never_raises:
  "\<exists>v. fst (call_gemini_api cfg post prompt max_tokens) = Inr v"
  by (simp add: call_gemini_api_def Let_def split: sum.splits)

lemma call_gemini_api_without_key:
  "GEMINI_API_KEY cfg = [] \<Longrightarrow>
     call_gemini_api cfg post prompt max_tokens = (Inr (JStr missing_key_message), [])"
  by (simp add: call_gemini_api_def)

section \<open>Claims\<close>

text \<open>
  C1. The claim: for every prompt the client never raises and always returns a string; with
  no key it returns a string that starts with an error marker and makes no network call.
  No exception escapes and the case without a key is as claimed (the two lemmas above).
  But the value returned on success is whatever the response holds under
  \<^verbatim>\<open>text\<close>: the signature says \<^verbatim>\<open>-> str\<close>, the code never checks. With a
  key configured and a response of status 200 whose body is
  \<^verbatim>\<open>{"candidates": [{"content": {"parts": [{"text": null}]}}]}\<close>,
  the function returns \<^verbatim>\<open>None\<close>, after one request.
\<close>

theorem call_gemini_api_returns_None:
  "call_gemini_api example_config (answering (text_body JNull)) ''hello'' 800
     = (Inr JNull, [gemini_request example_config ''hello''])"
  by (simp add: client_defs example_config_def answering_def text_body_def Let_def)





text \<open>
  C4. With a key configured and a response whose status is no error and whose body is a
  JSON object: when the object holds, under \<^verbatim>\<open>candidates\<close>, a list whose first element
  holds under \<^verbatim>\<open>content\<close> an object that holds under \<^verbatim>\<open>parts\<close> a list whose
  first element holds the string \<open>t\<close> under \<^verbatim>\<open>text\<close>, the client returns exactly
  \<open>t\<close> (further keys and further list elements do not matter); when the object has no key
  \<^verbatim>\<open>candidates\<close>, the client returns the placeholder.
\<close>

theorem call_gemini_api_success_body:
  assumes "GEMINI_API_KEY cfg \<noteq> []"
    and "post (gemini_request cfg prompt) = PostResponds status (Some (JObj items))"
    and "\<not> (400 \<le> status \<and> status < 600)"
  shows "(\<forall>cand cands content part parts t.
            map_of items ''candidates'' = Some (JArr (JObj cand # cands)) \<longrightarrow>
            map_of cand ''content'' = Some (JObj content) \<longrightarrow>
            map_of content ''parts'' = Some (JArr (JObj part # parts)) \<longrightarrow>
            map_of part ''text'' = Some (JStr t) \<longrightarrow>
            fst (call_gemini_api cfg post prompt max_tokens) = Inr (JStr t))
       \<and> (map_of items ''candidates'' = None \<longrightarrow>
            fst (call_gemini_api cfg post prompt max_tokens)
              = Inr (JStr ''[No response text found]''))"
  using assms
  by (auto simp: client_defs Let_def no_response_text_def)

theorem call_gemini_api_success_body_witness:
  "fst (call_gemini_api example_config (answering (text_body (JStr ''Lock your phone.'')))
          ''hello'' 800)
     = Inr (JStr ''Lock your phone.'')
   \<and> fst (call_gemini_api example_config (answering (JObj [(''error'', JNull)])) ''hello'' 800)
     = Inr (JStr ''[No response text found]'')"
proof -
  have key: "GEMINI_API_KEY example_config \<noteq> []" by (simp add: example_config_def)
  have ok: "\<not> (400 \<le> (200::nat) \<and> (200::nat) < 600)" by simp
  have r1: "answering (text_body (JStr ''Lock your phone.''))
              (gemini_request example_config ''hello'')
      = PostResponds 200 (Some (JObj [(''candidates'',
            JArr [JObj [(''content'',
              JObj [(''parts'', JArr [JObj [(''text'', JStr ''Lock your phone.'')]])])]])]))"
    by (simp add: answering_def text_body_def)
  have r2: "answering (JObj [(''error'', JNull)]) (gemini_request example_config ''hello'')
      = PostResponds 200 (Some (JObj [(''error'', JNull)]))"
    by (simp add: answering_def)
  from call_gemini_api_success_body
         [where post = "answering (text_body (JStr ''Lock your phone.''))" and max_tokens = 800,
          OF key r1 ok]
  have a: "fst (call_gemini_api example_config
                  (answering (text_body (JStr ''Lock your phone.''))) ''hello'' 800)
     = Inr (JStr ''Lock your phone.'')" by simp
  from call_gemini_api_success_body
         [where post = "answering (JObj [(''error'', JNull)])" and max_tokens = 800,
          OF key r2 ok]
  have b: "fst (call_gemini_api example_config (answering (JObj [(''error'', JNull)]))
                  ''hello'' 800)
     = Inr (JStr ''[No response text found]'')" by simp
  from a b show ?thesis by simp
qed







text \<open>
  C7. For a request that completes the flow (valid business type, context loaded), with a
  clock that shows a valid date from the year 1000 on, the page is rendered and its file name
  is \<^verbatim>\<open>policy_\<close>, the business type with every space replaced by an underscore,
  an underscore, the fourteen digits that \<^verbatim>\<open>strftime("%Y%m%d%H%M%S")\<close> prints for the
  clock, and \<^verbatim>\<open>.txt\<close>.
\<close>

theorem generate_filename_pattern:
  assumes "form_business_type form \<in> set allowed_types"
    and "load_local_context (env_stories e) 20 = Inr local_context"
    and "valid_datetime (env_utcnow e)"
    and "1000 \<le> dt_year (env_utcnow e)"
  shows "\<exists>page ts. fst (generate e form) = Inr (RenderTemplate ''result.html'' page)
           \<and> rp_filename page
               = ''policy_''
                 @ map (\<lambda>c. if c = CHR '' '' then CHR ''_'' else c) (form_business_type form)
                 @ ''_'' @ ts @ ''.txt''
           \<and> ts = strftime (env_utcnow e)
           \<and> length ts = 14 \<and> (\<forall>c \<in> set ts. is_digit c)"
proof -
  from generate_accepted(2) [OF assms(1,2)] obtain policy where
    "fst (generate e form)
       = Inr (RenderTemplate ''result.html''
                \<lparr> rp_policy = policy,
                  rp_filename = ''policy_'' @ replace (form_business_type form) CHR '' '' CHR ''_''
                                @ ''_'' @ strftime (env_utcnow e) @ ''.txt'',
                  rp_business_type = form_business_type form,
                  rp_tools = form_tools form,
                  rp_concerns = form_concerns form \<rparr>)"
    by blast
  moreover have "length (strftime (env_utcnow e)) = 14
      \<and> (\<forall>c \<in> set (strftime (env_utcnow e)). is_digit c)"
    using assms(3,4) by (rule strftime_14_digits)
  ultimately show ?thesis by (simp add: replace_def)
qed

theorem generate_filename_pattern_witness:
  "form_business_type example_form \<in> set allowed_types
   \<and> load_local_context (env_stories example_env) 20 = Inr []
   \<and> valid_datetime (env_utcnow example_env)
   \<and> 1000 \<le> dt_year (env_utcnow example_env)
   \<and> (\<exists>page. fst (generate example_env example_form)
                 = Inr (RenderTemplate ''result.html'' page)
             \<and> rp_filename page = ''policy_whatsapp_vendor_20240309070500.txt'')"
proof -
  have h1: "form_business_type example_form \<in> set allowed_types" by code_simp
  have h3: "valid_datetime (env_utcnow example_env)" by code_simp
  have h4: "1000 \<le> dt_year (env_utcnow example_env)" by code_simp
  have b: "form_business_type example_form = ''whatsapp vendor''" by code_simp
  have s: "strftime (env_utcnow example_env) = ''20240309070500''" by code_simp
  from generate_filename_pattern [OF h1 example_env_context h3 h4] obtain page ts where
    "fst (generate example_env example_form) = Inr (RenderTemplate ''result.html'' page)"
    "rp_filename page
       = ''policy_''
         @ map (\<lambda>c. if c = CHR '' '' then CHR ''_'' else c) (form_business_type example_form)
         @ ''_'' @ ts @ ''.txt''"
    "ts = strftime (env_utcnow example_env)"
    by blast
  then have "\<exists>page. fst (generate example_env example_form)
                 = Inr (RenderTemplate ''result.html'' page)
             \<and> rp_filename page = ''policy_whatsapp_vendor_20240309070500.txt''"
    by (simp add: b s)
  with h1 h3 h4 example_env_context show ?thesis by blast
qed

text \<open>
  C8. A POST to \<^verbatim>\<open>/download\<close> with the fields \<^verbatim>\<open>policy_text\<close> and
  \<^verbatim>\<open>filename\<close> is answered by an attachment whose body is the UTF-8 encoding of the
  submitted text, all of it (the buffer is rewound before it is sent), whose name is the
  submitted file name unchanged, and whose type is \<^verbatim>\<open>text/plain\<close>.
\<close>

theorem download_returns_submitted_text:
  assumes "form ''policy_text'' = Some policy_text"
    and "form ''filename'' = Some filename"
  shows "download now form =
     \<lparr> fr_body = encode_utf8 policy_text, fr_as_attachment = True,
       fr_download_name = filename, fr_mimetype = ''text/plain'' \<rparr>"
  using assms by (simp add: download_unfold dict_get_def)

theorem download_returns_submitted_text_witness:
  "download example_now [''policy_text'' \<mapsto> ''Lock it.'', ''filename'' \<mapsto> ''my policy.txt'']
     = \<lparr> fr_body = [76, 111, 99, 107, 32, 105, 116, 46], fr_as_attachment = True,
         fr_download_name = ''my policy.txt'', fr_mimetype = ''text/plain'' \<rparr>"
proof -
  have e: "encode_utf8 ''Lock it.'' = [76, 111, 99, 107, 32, 105, 116, 46]" by code_simp
  have "download example_now
          [''policy_text'' \<mapsto> ''Lock it.'', ''filename'' \<mapsto> ''my policy.txt'']
     = \<lparr> fr_body = encode_utf8 ''Lock it.'', fr_as_attachment = True,
         fr_download_name = ''my policy.txt'', fr_mimetype = ''text/plain'' \<rparr>"
    by (rule download_returns_submitted_text) simp_all
  then show ?thesis by (simp only: e)
qed

text \<open>
  C9. A POST to \<^verbatim>\<open>/download\<close> without the field \<^verbatim>\<open>filename\<close> gets the name
  \<^verbatim>\<open>policy_\<close>, the fourteen digits of the clock, \<^verbatim>\<open>.txt\<close> (for a clock that
  shows a valid date from the year 1000 on).
\<close>

theorem download_default_filename:
  assumes "form ''filename'' = None"
    and "valid_datetime now"
    and "1000 \<le> dt_year now"
  shows "\<exists>ts. fr_download_name (download now form) = ''policy_'' @ ts @ ''.txt''
           \<and> ts = strftime now \<and> length ts = 14 \<and> (\<forall>c \<in> set ts. is_digit c)"
  using assms(1) strftime_14_digits [OF assms(2,3)]
  by (simp add: download_unfold dict_get_def)

theorem download_default_filename_witness:
  "[''policy_text'' \<mapsto> ''Lock it.''] ''filename'' = None
   \<and> valid_datetime example_now \<and> 1000 \<le> dt_year example_now
   \<and> fr_download_name (download example_now [''policy_text'' \<mapsto> ''Lock it.''])
       = ''policy_20240309070500.txt''"
proof -
  have h1: "[''policy_text'' \<mapsto> ''Lock it.''] ''filename'' = None" by simp
  have h2: "valid_datetime example_now" by code_simp
  have h3: "1000 \<le> dt_year example_now" by code_simp
  have s: "strftime example_now = ''20240309070500''" by code_simp
  from download_default_filename
         [where form = "[''policy_text'' \<mapsto> ''Lock it.'']" and now = example_now,
          OF h1 h2 h3]
  obtain ts where
    "fr_download_name (download example_now [''policy_text'' \<mapsto> ''Lock it.''])
       = ''policy_'' @ ts @ ''.txt''" "ts = strftime example_now"
    by blast
  then have "fr_download_name (download example_now [''policy_text'' \<mapsto> ''Lock it.''])
       = ''policy_20240309070500.txt''" by (simp add: s)
  with h1 h2 h3 show ?thesis by blast
qed



end
